theory Spec2Isabelle
  imports Main "HOL-Library.Multiset"
begin

section \<open>The trivia API backend (flaskr/__init__.py)\<close>

text \<open>
  The handlers of \<^verbatim>\<open>create_app\<close> are embedded as functions from the database
  contents and the request to the handler's outcome. An outcome is either a JSON body
  or a raised exception; what Flask makes of it is \<open>respond\<close>. Handlers that write to
  the database also return the database afterwards.
\<close>

subsection \<open>Data model\<close>

text \<open>
  Modelled from the spec: the module \<^verbatim>\<open>models\<close> with the classes \<^verbatim>\<open>Question\<close> and
  \<^verbatim>\<open>Category\<close> is not among the sources. A question has an id, the question text, the
  answer text, the id of its category and a difficulty; a category has an id and a label
  (its \<^verbatim>\<open>type\<close>). \<^verbatim>\<open>Question.format()\<close> gives a dictionary with exactly the five
  attributes of the row, so a formatted question is represented by the row record itself.
\<close>

record question =
  q_id :: int
  q_question :: string
  q_answer :: string
  q_category :: int
  q_difficulty :: int

record category =
  c_id :: int
  c_type :: string

text \<open>
  The database: both tables in the order in which a query without \<^verbatim>\<open>order_by\<close>
  returns their rows, and whether the engine's \<^verbatim>\<open>LIKE\<close> operator takes the
  backslash as its escape character (PostgreSQL does by default; standard SQL without
  an \<^verbatim>\<open>ESCAPE\<close> clause has no escape character).
\<close>

record store =
  questions_tbl :: "question list"
  categories_tbl :: "category list"
  backslash_escapes :: bool

subsection \<open>Exceptions, bodies and the error handlers\<close>

text \<open>
  \<^verbatim>\<open>abort(code)\<close> raises the HTTP exception of that status code (werkzeug's
  \<^verbatim>\<open>NotFound\<close> for 404, \<^verbatim>\<open>UnprocessableEntity\<close> for 422). HTTP exceptions are
  subclasses of \<^verbatim>\<open>Exception\<close>, as are the errors of the Python operations the
  handlers use, so \<^verbatim>\<open>except Exception\<close> catches every constructor of \<open>exn\<close>.
\<close>

datatype exn = HTTPException nat | KeyError | IndexError | AssertionError

datatype body =
    Categories "(int \<times> string) list"
  | QuestionPage "question list" nat "(int \<times> string) list" string
  | QuestionList "question list" nat string
  | Deleted int
  | Success
  | QuizQuestion "question option"
  | Failure string
  | DefaultErrorPage

text \<open>
  \<open>QuestionPage qs n cats cur\<close> is \<^verbatim>\<open>{success: True, questions: qs, total_questions: n,
  categories: cats, current_category: cur}\<close>; \<open>QuestionList\<close> is the same without the
  categories; \<open>QuizQuestion None\<close> is \<^verbatim>\<open>{success: True, question: ''}\<close>;
  \<open>Failure m\<close> is \<^verbatim>\<open>{success: False, message: m}\<close>; \<open>DefaultErrorPage\<close> is the
  page that Flask itself sends for an HTTP exception without a registered handler.
\<close>

definition abort :: "nat \<Rightarrow> exn + 'a" where
  "abort code = Inl (HTTPException code)"

definition not_found :: "body \<times> nat" where
  "not_found = (Failure ''Not Found'', 404)"

definition unprocessable :: "body \<times> nat" where
  "unprocessable = (Failure ''Unprocessable'', 422)"

text \<open>
  Flask's dispatch around a view function: a returned body is sent with status 200, the
  two registered error handlers answer the HTTP exceptions 404 and 422, and an exception
  that is not an HTTP exception has no handler in the application (\<open>Inl\<close>: it leaves
  the application unhandled, which a client sees as a server error).
\<close>

fun respond :: "exn + body \<Rightarrow> exn + body \<times> nat" where
  "respond (Inr b) = Inr (b, 200)"
| "respond (Inl (HTTPException code)) =
     (if code = 404 then Inr not_found
      else if code = 422 then Inr unprocessable
      else Inr (DefaultErrorPage, code))"
| "respond (Inl e) = Inl e"

text \<open>
  Statements in sequence: an exception raised by the first ends the block, otherwise the
  block goes on with the value.
\<close>

definition seq :: "exn + 'a \<Rightarrow> ('a \<Rightarrow> exn + 'b) \<Rightarrow> exn + 'b" where
  "seq r f = (case r of Inl ex \<Rightarrow> Inl ex | Inr v \<Rightarrow> f v)"

subsection \<open>Python operations\<close>

text \<open>\<^verbatim>\<open>xs[start:end]\<close>: a negative bound counts from the end, and both are clamped.\<close>

definition py_slice :: "'a list \<Rightarrow> int \<Rightarrow> int \<Rightarrow> 'a list" where
  "py_slice xs start end =
     (let n = int (length xs);
          s = (if start < 0 then max (start + n) 0 else min start n);
          e = (if end < 0 then max (end + n) 0 else min end n)
      in take (nat (e - s)) (drop (nat s) xs))"

text \<open>
  \<^verbatim>\<open>str.lower()\<close> on the ASCII letters; a \<open>char\<close> is a byte. Python and the
  database engine also fold the letters outside ASCII, which are left as they are here:
  the model follows the program on ASCII text, and the examples below are ASCII.
\<close>

definition lower_char :: "char \<Rightarrow> char" where
  "lower_char c =
     (let n = (of_char c :: nat) in if 65 \<le> n \<and> n \<le> 90 then char_of (n + 32) else c)"

definition lower :: "string \<Rightarrow> string" where
  "lower s = map lower_char s"

text \<open>
  A dictionary keeps its keys in insertion order; storing under a key that is present
  replaces the value in place.
\<close>

fun dict_set :: "'k \<Rightarrow> 'v \<Rightarrow> ('k \<times> 'v) list \<Rightarrow> ('k \<times> 'v) list" where
  "dict_set k v [] = [(k, v)]"
| "dict_set k v ((k', v') # kvs) =
     (if k' = k then (k', v) # kvs else (k', v') # dict_set k v kvs)"

definition dict_get :: "('k \<times> 'v) list \<Rightarrow> 'k \<Rightarrow> exn + 'v" where
  "dict_get d k = (case map_of d k of None \<Rightarrow> Inl KeyError | Some v \<Rightarrow> Inr v)"

text \<open>
  \<^verbatim>\<open>Counter(xs)\<close> counts the elements in the order of their first occurrence.
  \<^verbatim>\<open>most_common(1)\<close> is \<^verbatim>\<open>heapq.nlargest(1, items, key=count)\<close>, which is
  \<^verbatim>\<open>max\<close>: the first item with the greatest count, and no item for an empty counter.
\<close>

fun counter_add :: "'k \<Rightarrow> ('k \<times> nat) list \<Rightarrow> ('k \<times> nat) list" where
  "counter_add k [] = [(k, 1)]"
| "counter_add k ((k', n) # kvs) =
     (if k' = k then (k', n + 1) # kvs else (k', n) # counter_add k kvs)"

definition Counter :: "'k list \<Rightarrow> ('k \<times> nat) list" where
  "Counter xs = fold counter_add xs []"

fun first_max :: "'k \<times> nat \<Rightarrow> ('k \<times> nat) list \<Rightarrow> 'k \<times> nat" where
  "first_max b [] = b"
| "first_max b (x # xs) = first_max (if snd b < snd x then x else b) xs"

definition most_common1 :: "('k \<times> nat) list \<Rightarrow> ('k \<times> nat) list" where
  "most_common1 c = (case c of [] \<Rightarrow> [] | x # xs \<Rightarrow> [first_max x xs])"

subsection \<open>The queries of the persistence layer\<close>

text \<open>
  The database is taken to be reachable: the queries themselves do not raise.
  \<^verbatim>\<open>Question.query.order_by(Question.id).all()\<close> gives the questions by ascending id.
\<close>

definition order_by_id :: "question list \<Rightarrow> question list" where
  "order_by_id qs = sort_key q_id qs"

text \<open>\<^verbatim>\<open>Question.query.get(i)\<close>: the question with the id \<open>i\<close>, or \<^verbatim>\<open>None\<close>.\<close>

definition Question_get :: "store \<Rightarrow> int \<Rightarrow> question option" where
  "Question_get st i = find (\<lambda>q. q_id q = i) (questions_tbl st)"

text \<open>
  Modelled from the spec: \<^verbatim>\<open>Question.delete\<close> of the module \<^verbatim>\<open>models\<close>, which is
  not among the sources. It deletes the record, that is the row with the question's id.
\<close>

definition Question_delete :: "question \<Rightarrow> store \<Rightarrow> store" where
  "Question_delete q st =
     st\<lparr>questions_tbl := filter (\<lambda>r. q_id r \<noteq> q_id q) (questions_tbl st)\<rparr>"

text \<open>
  Modelled from the spec: the constructor and \<^verbatim>\<open>Question.insert\<close> of the module
  \<^verbatim>\<open>models\<close>, which is not among the sources. Inserting persists a new record whose id
  is assigned by the server and is unique: here the next id after the greatest one.
\<close>

definition fresh_id :: "question list \<Rightarrow> int" where
  "fresh_id qs = fold max (map q_id qs) 0 + 1"

definition Question_insert :: "string \<Rightarrow> string \<Rightarrow> int \<Rightarrow> int \<Rightarrow> store \<Rightarrow> store" where
  "Question_insert qu an ca di st =
     st\<lparr>questions_tbl := questions_tbl st @
          [\<lparr>q_id = fresh_id (questions_tbl st), q_question = qu, q_answer = an,
            q_category = ca, q_difficulty = di\<rparr>]\<rparr>"

text \<open>
  \<^verbatim>\<open>text ILIKE pattern\<close>: in the pattern \<^verbatim>\<open>%\<close> stands for any sequence of characters,
  \<^verbatim>\<open>_\<close> for any one character, a backslash (where it is the escape character) makes
  the character after it stand for itself, and every other character stands for itself;
  letters match without regard to case (the ASCII letters, by \<open>lower_char\<close>). A pattern
  that ends in the middle of an escape matches nothing (the patterns that
  \<open>query_questions\<close> builds end with \<^verbatim>\<open>%\<close>, so they never end there).
\<close>

fun ilike :: "bool \<Rightarrow> string \<Rightarrow> string \<Rightarrow> bool" where
  "ilike esc [] t = (t = [])"
| "ilike esc (p # ps) t =
     (if esc \<and> p = CHR 0x5C then
        (case ps of
           [] \<Rightarrow> False
         | c # ps' \<Rightarrow>
             (case t of [] \<Rightarrow> False
              | x # xs \<Rightarrow> lower_char x = lower_char c \<and> ilike esc ps' xs))
      else if p = CHR ''%'' then
        (ilike esc ps t \<or> (case t of [] \<Rightarrow> False | x # xs \<Rightarrow> ilike esc (p # ps) xs))
      else if p = CHR ''_'' then
        (case t of [] \<Rightarrow> False | x # xs \<Rightarrow> ilike esc ps xs)
      else
        (case t of [] \<Rightarrow> False
         | x # xs \<Rightarrow> lower_char x = lower_char p \<and> ilike esc ps xs))"

subsection \<open>get_common_category\<close>

definition get_common_category ::
  "(int \<times> string) list \<Rightarrow> question list \<Rightarrow> exn + string" where
  "get_common_category categories questions =
     (if questions = [] then Inr ''''
      else
        (case most_common1 (Counter (map q_category questions)) of
           [] \<Rightarrow> Inl IndexError
         | (k, n) # rest \<Rightarrow> dict_get categories k))"

subsection \<open>The handlers\<close>

text \<open>\<^verbatim>\<open>{cat.id: cat.type.lower() for cat in Category.query.all()}\<close>\<close>

definition categories_dict :: "store \<Rightarrow> (int \<times> string) list" where
  "categories_dict st =
     fold (\<lambda>cat d. dict_set (c_id cat) (lower (c_type cat)) d) (categories_tbl st) []"

definition QUESTIONS_PER_PAGE :: int where
  "QUESTIONS_PER_PAGE = 10"

definition get_available_categories :: "store \<Rightarrow> exn + body" where
  "get_available_categories st =
     (let categories = categories_dict st
      in if categories \<noteq> [] then Inr (Categories categories) else abort 404)"

text \<open>
  The argument is the query parameter \<^verbatim>\<open>page\<close> read with \<^verbatim>\<open>type=int\<close>: \<open>None\<close>
  when it is absent or is not an integer, in which case the default 1 is taken.
\<close>

definition get_questions :: "store \<Rightarrow> int option \<Rightarrow> exn + body" where
  "get_questions st page_arg =
     (let page = (case page_arg of None \<Rightarrow> 1 | Some p \<Rightarrow> p);
          questions = order_by_id (questions_tbl st);
          categories = categories_dict st;
          start = (page - 1) * QUESTIONS_PER_PAGE;
          end = start + QUESTIONS_PER_PAGE;
          selected_questions = py_slice questions start end
      in if length selected_questions = 0 then abort 404
         else
           seq (get_common_category categories selected_questions) (\<lambda>current.
             Inr (QuestionPage selected_questions (length questions) categories current)))"

text \<open>
  \<^verbatim>\<open>try: ... except Exception as ex: abort(code)\<close> around a handler body: whatever was
  raised inside (an \<^verbatim>\<open>abort\<close> of the body included), the \<^verbatim>\<open>abort\<close> of the
  \<^verbatim>\<open>except\<close> branch is what leaves the handler. The \<^verbatim>\<open>print(ex)\<close> of some
  branches writes to the log only.
\<close>

definition except_abort :: "nat \<Rightarrow> exn + body \<Rightarrow> exn + body" where
  "except_abort code r = (case r of Inl ex \<Rightarrow> abort code | Inr b \<Rightarrow> Inr b)"

definition delete_question :: "store \<Rightarrow> int \<Rightarrow> (exn + body) \<times> store" where
  "delete_question st question_id =
     (let (r, st') =
        (case Question_get st question_id of
           None \<Rightarrow> (abort 404, st)
         | Some question \<Rightarrow> (Inr (Deleted question_id), Question_delete question st))
      in (except_abort 422 r, st'))"

text \<open>
  The JSON body of \<^verbatim>\<open>POST /questions\<close>: each field is absent (\<open>None\<close>) or carries a
  value of the type the data model gives it. \<^verbatim>\<open>request.json[k]\<close> raises
  \<^verbatim>\<open>KeyError\<close> for an absent field; a string is falsy exactly when it is empty.
\<close>

record add_body =
  b_question :: "string option"
  b_answer :: "string option"
  b_category :: "int option"
  b_difficulty :: "int option"

definition json_get :: "'a option \<Rightarrow> exn + 'a" where
  "json_get field = (case field of None \<Rightarrow> Inl KeyError | Some v \<Rightarrow> Inr v)"

definition py_assert :: "bool \<Rightarrow> exn + unit" where
  "py_assert c = (if c then Inr () else Inl AssertionError)"

text \<open>
  The statements of \<open>add_question\<close> up to the call of \<^verbatim>\<open>insert\<close>: the two
  assertions, then the four arguments of the constructor, read from left to right.
\<close>

definition add_question_args :: "add_body \<Rightarrow> exn + string \<times> string \<times> int \<times> int" where
  "add_question_args b =
     seq (json_get (b_question b)) (\<lambda>q0.
     seq (py_assert (q0 \<noteq> [])) (\<lambda>_.
     seq (json_get (b_answer b)) (\<lambda>a0.
     seq (py_assert (a0 \<noteq> [])) (\<lambda>_.
     seq (json_get (b_question b)) (\<lambda>qu.
     seq (json_get (b_answer b)) (\<lambda>an.
     seq (json_get (b_category b)) (\<lambda>ca.
     seq (json_get (b_difficulty b)) (\<lambda>di.
       Inr (qu, an, ca, di)))))))))"

definition add_question :: "store \<Rightarrow> add_body \<Rightarrow> (exn + body) \<times> store" where
  "add_question st b =
     (let (r, st') =
        (case add_question_args b of
           Inl ex \<Rightarrow> (Inl ex, st)
         | Inr (qu, an, ca, di) \<Rightarrow> (Inr Success, Question_insert qu an ca di st))
      in (except_abort 422 r, st'))"

text \<open>
  \<^verbatim>\<open>POST /search\<close>. The pattern is the search term between two \<^verbatim>\<open>%\<close>, as the
  f-string builds it: the term's own characters are not escaped.
\<close>

definition query_questions :: "store \<Rightarrow> string option \<Rightarrow> exn + body" where
  "query_questions st search_term =
     except_abort 422
       (seq (json_get search_term) (\<lambda>search_query.
          let filtered_questions =
                filter (\<lambda>q. ilike (backslash_escapes st)
                               (''%'' @ search_query @ ''%'') (q_question q))
                  (questions_tbl st);
              categories = categories_dict st
          in seq (get_common_category categories filtered_questions) (\<lambda>current.
               Inr (QuestionList filtered_questions (length filtered_questions) current))))"

definition get_questions_by_category :: "store \<Rightarrow> int \<Rightarrow> exn + body" where
  "get_questions_by_category st category_id =
     except_abort 404
       (let filtered_questions =
              filter (\<lambda>q. q_category q = category_id) (questions_tbl st);
            categories = categories_dict st
        in seq (dict_get categories category_id) (\<lambda>current.
             Inr (QuestionList filtered_questions (length filtered_questions) current)))"

text \<open>
  \<^verbatim>\<open>POST /quizzes\<close>. The body has the list \<^verbatim>\<open>previous_questions\<close> and the object
  \<^verbatim>\<open>quiz_category\<close> with its field \<^verbatim>\<open>id\<close>, each of which may be absent.
  \<^verbatim>\<open>random.shuffle\<close> is the parameter \<open>shuffle\<close>: the order it happens to produce.
\<close>

record quiz_body =
  previous_questions :: "int list option"
  quiz_category :: "int option option"

definition category_questions :: "store \<Rightarrow> int \<Rightarrow> question list" where
  "category_questions st category_id =
     (if category_id = 0 then questions_tbl st
      else filter (\<lambda>q. q_category q = category_id) (questions_tbl st))"

fun quiz_scan :: "int set \<Rightarrow> question list \<Rightarrow> body" where
  "quiz_scan previous [] = QuizQuestion None"
| "quiz_scan previous (q # qs) =
     (if q_id q \<notin> previous then QuizQuestion (Some q) else quiz_scan previous qs)"

definition quiz ::
  "(question list \<Rightarrow> question list) \<Rightarrow> store \<Rightarrow> quiz_body \<Rightarrow> exn + body" where
  "quiz shuffle st b =
     except_abort 422
       (seq (json_get (previous_questions b)) (\<lambda>prev.
        seq (json_get (quiz_category b)) (\<lambda>cat.
        seq (json_get cat) (\<lambda>category_id.
          Inr (quiz_scan (set prev) (shuffle (category_questions st category_id)))))))"

subsection \<open>Example databases\<close>

definition trivia_store :: store where
  "trivia_store =
     \<lparr>questions_tbl =
        [\<lparr>q_id = 2, q_question = ''Who painted the Water Lilies?'', q_answer = ''Monet'',
          q_category = 2, q_difficulty = 2\<rparr>,
         \<lparr>q_id = 1, q_question = ''What is the Title of the first Harry Potter book?'',
          q_answer = ''The Philosophers Stone'', q_category = 1, q_difficulty = 1\<rparr>,
         \<lparr>q_id = 3, q_question = ''Which artist cut off his ear?'', q_answer = ''Van Gogh'',
          q_category = 2, q_difficulty = 1\<rparr>],
      categories_tbl =
        [\<lparr>c_id = 1, c_type = ''Books''\<rparr>, \<lparr>c_id = 2, c_type = ''Art''\<rparr>,
         \<lparr>c_id = 3, c_type = ''Sports''\<rparr>],
      backslash_escapes = True\<rparr>"

text \<open>A question whose category is not in the category table.\<close>

definition orphan_store :: store where
  "orphan_store =
     \<lparr>questions_tbl =
        [\<lparr>q_id = 1, q_question = ''Who wrote Dune?'', q_answer = ''Frank Herbert'',
          q_category = 5, q_difficulty = 2\<rparr>],
      categories_tbl = [\<lparr>c_id = 1, c_type = ''Science''\<rparr>],
      backslash_escapes = True\<rparr>"

text \<open>Most questions are of category 2, which the category table does not have.\<close>

definition stale_store :: store where
  "stale_store =
     \<lparr>questions_tbl =
        [\<lparr>q_id = 1, q_question = ''Who painted the Water Lilies?'', q_answer = ''Monet'',
          q_category = 2, q_difficulty = 2\<rparr>,
         \<lparr>q_id = 2, q_question = ''Who wrote Dune?'', q_answer = ''Frank Herbert'',
          q_category = 1, q_difficulty = 2\<rparr>,
         \<lparr>q_id = 3, q_question = ''Which artist cut off his ear?'', q_answer = ''Van Gogh'',
          q_category = 2, q_difficulty = 1\<rparr>],
      categories_tbl = [\<lparr>c_id = 1, c_type = ''Books''\<rparr>],
      backslash_escapes = True\<rparr>"

text \<open>Twenty-five questions with the ids 1 to 25: three pages.\<close>

definition long_store :: store where
  "long_store =
     \<lparr>questions_tbl =
        map (\<lambda>i. \<lparr>q_id = i, q_question = ''What year?'', q_answer = ''1066'',
                   q_category = 1, q_difficulty = 1\<rparr>) [1..25],
      categories_tbl = [\<lparr>c_id = 1, c_type = ''History''\<rparr>],
      backslash_escapes = False\<rparr>"

section \<open>Properties\<close>

subsection \<open>Helper lemmas\<close>

lemma length_order_by_id: "length (order_by_id qs) = length qs"
  by (simp add: order_by_id_def)

text \<open>A slice between two bounds that are not negative and in order.\<close>

lemma py_slice_nonneg:
  assumes "0 \<le> s" and "s \<le> e"
  shows "py_slice xs s e = take (nat (e - s)) (drop (nat s) xs)"
proof (cases "s \<le> int (length xs)")
  case inside: True
  show ?thesis
  proof (cases "e \<le> int (length xs)")
    case True
    with inside assms show ?thesis
      by (simp add: py_slice_def Let_def min_def)
  next
    case False
    with assms inside have "length (drop (nat s) xs) \<le> nat (e - s)"
      and "length (drop (nat s) xs) \<le> nat (int (length xs) - s)"
      by auto
    with False inside assms show ?thesis
      by (simp add: py_slice_def Let_def min_def)
  qed
next
  case False
  with assms show ?thesis
    by (simp add: py_slice_def Let_def min_def)
qed

lemma py_slice_page:
  "1 \<le> p \<Longrightarrow>
   py_slice xs ((p - 1) * 10) ((p - 1) * 10 + 10) = take 10 (drop (nat ((p - 1) * 10)) xs)"
  by (simp add: py_slice_nonneg)

text \<open>Page 0 asks for \<^verbatim>\<open>xs[-10:0]\<close>, page -1 for \<^verbatim>\<open>xs[-20:-10]\<close>.\<close>

lemma py_slice_page0: "py_slice xs (- 10) 0 = []"
  by (simp add: py_slice_def Let_def max_def)

lemma py_slice_minus1:
  "py_slice xs (- 20) (- 10) = drop (length xs - 20) (take (length xs - 10) xs)"
proof -
  define n where "n = length xs"
  have unfold: "py_slice xs (- 20) (- 10) =
      take (nat (max (- 10 + int n) 0 - max (- 20 + int n) 0))
        (drop (nat (max (- 20 + int n) 0)) xs)"
    by (simp add: py_slice_def Let_def n_def)
  have first: "nat (max (- 20 + int n) 0) = n - 20"
    by arith
  have count: "nat (max (- 10 + int n) 0 - max (- 20 + int n) 0) = (n - 10) - (n - 20)"
    by arith
  show ?thesis
    unfolding unfold first count by (simp add: drop_take n_def)
qed

lemma find_app:
  "find P (xs @ ys) = (case find P xs of None \<Rightarrow> find P ys | Some x \<Rightarrow> Some x)"
  by (induction xs) auto

lemma find_SomeD: "find P xs = Some x \<Longrightarrow> x \<in> set xs \<and> P x"
  by (induction xs) (auto split: if_splits)

text \<open>The category mapping gives an id the lower-cased label of the last row with that id.\<close>

lemma map_of_dict_set: "map_of (dict_set k v d) = (map_of d)(k \<mapsto> v)"
  by (induction d) (auto simp: fun_eq_iff)

lemma map_of_categories_fold:
  "map_of (fold (\<lambda>cat d. dict_set (c_id cat) (lower (c_type cat)) d) cats d0) k =
     (case find (\<lambda>cat. c_id cat = k) (rev cats) of
        None \<Rightarrow> map_of d0 k
      | Some cat \<Rightarrow> Some (lower (c_type cat)))"
  by (induction cats arbitrary: d0)
    (auto simp: map_of_dict_set find_app split: option.splits)

lemma categories_dict_lookup:
  "map_of (categories_dict st) k =
     map_option (\<lambda>cat. lower (c_type cat))
       (find (\<lambda>cat. c_id cat = k) (rev (categories_tbl st)))"
  by (simp add: categories_dict_def map_of_categories_fold split: option.splits)

text \<open>The scan of the quiz handler.\<close>

lemma quiz_scan_all_seen:
  "\<forall>q \<in> set qs. q_id q \<in> previous \<Longrightarrow> quiz_scan previous qs = QuizQuestion None"
  by (induction qs) auto

lemma quiz_scan_first_unseen:
  "\<exists>q \<in> set qs. q_id q \<notin> previous \<Longrightarrow>
   \<exists>seen q rest. qs = seen @ q # rest \<and> (\<forall>u \<in> set seen. q_id u \<in> previous) \<and>
      q_id q \<notin> previous \<and> quiz_scan previous qs = QuizQuestion (Some q)"
proof (induction qs)
  case Nil
  then show ?case by simp
next
  case (Cons a qs)
  show ?case
  proof (cases "q_id a \<in> previous")
    case True
    with Cons.prems have "\<exists>q \<in> set qs. q_id q \<notin> previous"
      by auto
    from Cons.IH [OF this] obtain seen q rest where
      "qs = seen @ q # rest" "\<forall>u \<in> set seen. q_id u \<in> previous" "q_id q \<notin> previous"
      "quiz_scan previous qs = QuizQuestion (Some q)"
      by blast
    with True have "a # qs = (a # seen) @ q # rest \<and>
        (\<forall>u \<in> set (a # seen). q_id u \<in> previous) \<and> q_id q \<notin> previous \<and>
        quiz_scan previous (a # qs) = QuizQuestion (Some q)"
      by simp
    then show ?thesis
      by blast
  next
    case False
    then have "a # qs = [] @ a # qs \<and> (\<forall>u \<in> set []. q_id u \<in> previous) \<and>
        q_id a \<notin> previous \<and> quiz_scan previous (a # qs) = QuizQuestion (Some a)"
      by simp
    then show ?thesis
      by blast
  qed
qed

lemma category_questions_member:
  "q \<in> set (category_questions st category_id) \<Longrightarrow>
   q \<in> set (questions_tbl st) \<and> (category_id \<noteq> 0 \<longrightarrow> q_category q = category_id)"
  by (auto simp: category_questions_def split: if_splits)

text \<open>
  The pattern \<^verbatim>\<open>%_%\<close>, which the search for an underscore builds, matches every text
  that is not empty, whatever its letters are.
\<close>

lemma ilike_any: "ilike esc ''%'' t"
  by (induction t) auto

lemma ilike_underscore: "ilike esc ''%_%'' t \<longleftrightarrow> t \<noteq> []"
proof (cases t)
  case Nil
  then show ?thesis
    by simp
next
  case (Cons x xs)
  then show ?thesis
    using ilike_any [of esc xs] by simp
qed

lemma find_id_absent: "i \<notin> q_id ` set qs \<Longrightarrow> find (\<lambda>q. q_id q = i) qs = None"
  by (induction qs) auto

subsection \<open>Deleting a question that does not exist\<close>

text \<open>
  C3. For every question id that is not the id of a stored question,
  \<^verbatim>\<open>DELETE /questions/{id}\<close> is answered with 422 Unprocessable: the lookup yields
  nothing, the \<^verbatim>\<open>abort(404)\<close> raised for it is caught by the handler's own
  \<^verbatim>\<open>except\<close> and replaced by \<^verbatim>\<open>abort(422)\<close>, and the stored questions are as before.
\<close>

theorem delete_question_absent:
  assumes "question_id \<notin> q_id ` set (questions_tbl st)"
  shows "delete_question st question_id = (Inl (HTTPException 422), st) \<and>
         respond (fst (delete_question st question_id)) = Inr (Failure ''Unprocessable'', 422)"
  using assms
  by (simp add: delete_question_def Question_get_def find_id_absent except_abort_def
      abort_def unprocessable_def)

theorem delete_question_absent_witness:
  "7 \<notin> q_id ` set (questions_tbl trivia_store) \<and>
   delete_question trivia_store 7 = (Inl (HTTPException 422), trivia_store) \<and>
   respond (fst (delete_question trivia_store 7)) = Inr (Failure ''Unprocessable'', 422)"
proof -
  have absent: "7 \<notin> q_id ` set (questions_tbl trivia_store)"
    by (simp add: trivia_store_def)
  from delete_question_absent [OF absent] absent show ?thesis
    by blast
qed

subsection \<open>Creating a question from an incomplete body\<close>

text \<open>
  C6. For every body of \<^verbatim>\<open>POST /questions\<close> in which one of the fields question,
  answer, category and difficulty is absent, or in which the question or the answer is
  empty, the answer is 422 Unprocessable and the database is unchanged: no question is
  created.
\<close>

theorem add_question_invalid:
  assumes "b_question b = None \<or> b_answer b = None \<or> b_category b = None \<or>
           b_difficulty b = None \<or> b_question b = Some [] \<or> b_answer b = Some []"
  shows "add_question st b = (Inl (HTTPException 422), st) \<and>
         respond (fst (add_question st b)) = Inr (Failure ''Unprocessable'', 422)"
  using assms
  by (auto simp: add_question_def add_question_args_def seq_def json_get_def py_assert_def
      except_abort_def abort_def unprocessable_def split: option.splits)

theorem add_question_invalid_witness:
  "add_question trivia_store
     \<lparr>b_question = Some ''Who wrote Dune?'', b_answer = Some [],
      b_category = Some 1, b_difficulty = Some 3\<rparr>
   = (Inl (HTTPException 422), trivia_store)"
  using add_question_invalid
    [of "\<lparr>b_question = Some ''Who wrote Dune?'', b_answer = Some [],
         b_category = Some 1, b_difficulty = Some 3\<rparr>" trivia_store]
  by simp

subsection \<open>Pages of the question list\<close>

text \<open>
  C1, as amended. For every page number \<open>p \<ge> 1\<close> whose slice of the id-ascending
  question list (indices \<open>(p-1)*10\<close> up to \<open>(p-1)*10+10\<close>) is not empty, and for which the
  lookup of the slice's most common category in the category mapping succeeds,
  \<^verbatim>\<open>GET /questions\<close> answers 200 with exactly that slice, which is the next ten
  questions from index \<open>(p-1)*10\<close> on (exactly ten whenever the list has \<open>p*10\<close>
  questions or more), and \<^verbatim>\<open>total_questions\<close> is the number of all questions,
  whatever \<open>p\<close> is. The list that is sliced holds the stored questions by ascending id.
\<close>

theorem get_questions_page:
  assumes "1 \<le> p"
    and "py_slice (order_by_id (questions_tbl st)) ((p - 1) * 10) ((p - 1) * 10 + 10) \<noteq> []"
    and "get_common_category (categories_dict st)
           (py_slice (order_by_id (questions_tbl st)) ((p - 1) * 10) ((p - 1) * 10 + 10))
         = Inr cur"
  shows "let page = py_slice (order_by_id (questions_tbl st)) ((p - 1) * 10) ((p - 1) * 10 + 10)
         in get_questions st (Some p) =
              Inr (QuestionPage page (length (questions_tbl st)) (categories_dict st) cur) \<and>
            respond (get_questions st (Some p)) =
              Inr (QuestionPage page (length (questions_tbl st)) (categories_dict st) cur, 200) \<and>
            page = take 10 (drop (nat ((p - 1) * 10)) (order_by_id (questions_tbl st))) \<and>
            (p * 10 \<le> int (length (questions_tbl st)) \<longrightarrow> length page = 10) \<and>
            sorted (map q_id (order_by_id (questions_tbl st))) \<and>
            mset (order_by_id (questions_tbl st)) = mset (questions_tbl st)"
proof -
  let ?qs = "order_by_id (questions_tbl st)"
  let ?page = "py_slice ?qs ((p - 1) * 10) ((p - 1) * 10 + 10)"
  have ordered: "sorted (map q_id ?qs)" "mset ?qs = mset (questions_tbl st)"
    by (simp_all add: order_by_id_def)
  have shape: "?page = take 10 (drop (nat ((p - 1) * 10)) ?qs)"
    using assms(1) by (rule py_slice_page)
  have full: "length ?page = 10" if "p * 10 \<le> int (length (questions_tbl st))"
    using that assms(1) unfolding shape by (simp add: length_order_by_id)
  have run: "get_questions st (Some p) =
      Inr (QuestionPage ?page (length (questions_tbl st)) (categories_dict st) cur)"
    using assms(2,3)
    by (simp add: get_questions_def QUESTIONS_PER_PAGE_def Let_def seq_def length_order_by_id)
  from shape full run ordered show ?thesis
    by (simp add: Let_def)
qed

text \<open>The third page of twenty-five questions holds the last five.\<close>

theorem get_questions_page_witness:
  "get_questions long_store (Some 3) =
     Inr (QuestionPage (drop 20 (questions_tbl long_store)) 25 [(1, ''history'')] ''history'')"
proof -
  have page: "py_slice (order_by_id (questions_tbl long_store)) ((3 - 1) * 10) ((3 - 1) * 10 + 10)
      = drop 20 (questions_tbl long_store)"
    by code_simp
  have nonempty: "py_slice (order_by_id (questions_tbl long_store)) ((3 - 1) * 10)
      ((3 - 1) * 10 + 10) \<noteq> []"
    by code_simp
  have common: "get_common_category (categories_dict long_store)
      (py_slice (order_by_id (questions_tbl long_store)) ((3 - 1) * 10) ((3 - 1) * 10 + 10))
      = Inr ''history''"
    by code_simp
  have total: "length (questions_tbl long_store) = 25"
    by code_simp
  have cats: "categories_dict long_store = [(1, ''history'')]"
    by code_simp
  have "(1::int) \<le> 3"
    by simp
  from get_questions_page [OF this nonempty common] show ?thesis
    unfolding Let_def page total cats by blast
qed

text \<open>
  C1 as it was stated has no condition on the categories. With one question whose
  category 5 is not in the category table, the slice of page 1 is not empty, and the
  handler does not return it: the lookup in \<open>get_common_category\<close> raises
  \<^verbatim>\<open>KeyError\<close>.
\<close>

theorem get_questions_page_counterexample:
  "py_slice (order_by_id (questions_tbl orphan_store)) ((1 - 1) * 10) ((1 - 1) * 10 + 10) =
     questions_tbl orphan_store \<and>
   questions_tbl orphan_store \<noteq> [] \<and>
   get_questions orphan_store (Some 1) = Inl KeyError"
  by code_simp

text \<open>
  C9. For every page number whose slice of the id-ordered question list is empty, and
  so for every page \<open>p \<ge> 1\<close> with \<open>(p-1)*10\<close> at or beyond the number of questions,
  \<^verbatim>\<open>GET /questions\<close> answers 404 Not Found.
\<close>

theorem get_questions_empty_page:
  assumes "py_slice (order_by_id (questions_tbl st)) ((p - 1) * 10) ((p - 1) * 10 + 10) = [] \<or>
           1 \<le> p \<and> int (length (questions_tbl st)) \<le> (p - 1) * 10"
  shows "get_questions st (Some p) = Inl (HTTPException 404) \<and>
         respond (get_questions st (Some p)) = Inr (Failure ''Not Found'', 404)"
proof -
  have "py_slice (order_by_id (questions_tbl st)) ((p - 1) * 10) ((p - 1) * 10 + 10) = []"
    using assms py_slice_page [of p "order_by_id (questions_tbl st)"]
    by (auto simp: length_order_by_id)
  then show ?thesis
    by (simp add: get_questions_def QUESTIONS_PER_PAGE_def abort_def not_found_def)
qed

theorem get_questions_empty_page_witness:
  "int (length (questions_tbl long_store)) \<le> (4 - 1) * 10 \<and>
   respond (get_questions long_store (Some 4)) = Inr (Failure ''Not Found'', 404)"
proof -
  have beyond: "int (length (questions_tbl long_store)) \<le> (4 - 1) * 10"
    by code_simp
  then have "py_slice (order_by_id (questions_tbl long_store)) ((4 - 1) * 10) ((4 - 1) * 10 + 10)
      = [] \<or> 1 \<le> (4::int) \<and> int (length (questions_tbl long_store)) \<le> (4 - 1) * 10"
    by simp
  from get_questions_empty_page [OF this] beyond show ?thesis
    by blast
qed

text \<open>
  C10. Page 0 asks for the slice from -10 to 0, which is empty for every list, so
  \<^verbatim>\<open>GET /questions?page=0\<close> always answers 404. Page -1 asks for the slice from -20
  to -10, counted from the end of the list: with more than ten questions that is what
  remains of the last twenty questions once the last ten are left out, it is not empty,
  and (when its most common category has a label) the answer is a success with those
  questions, not an error.
\<close>

theorem get_questions_nonpositive_page:
  "py_slice (order_by_id (questions_tbl st)) ((0 - 1) * 10) ((0 - 1) * 10 + 10) = [] \<and>
   respond (get_questions st (Some 0)) = Inr (Failure ''Not Found'', 404) \<and>
   (let qs = order_by_id (questions_tbl st);
        tail = drop (length qs - 20) (take (length qs - 10) qs)
    in 10 < length (questions_tbl st) \<and>
       get_common_category (categories_dict st) tail = Inr cur \<longrightarrow>
         tail \<noteq> [] \<and>
         respond (get_questions st (Some (- 1))) =
           Inr (QuestionPage tail (length qs) (categories_dict st) cur, 200))"
proof -
  let ?qs = "order_by_id (questions_tbl st)"
  let ?tail = "drop (length ?qs - 20) (take (length ?qs - 10) ?qs)"
  have empty: "py_slice ?qs ((0 - 1) * 10) ((0 - 1) * 10 + 10) = []"
    by (simp add: py_slice_page0)
  have zero: "respond (get_questions st (Some 0)) = Inr (Failure ''Not Found'', 404)"
    by (simp add: get_questions_def QUESTIONS_PER_PAGE_def py_slice_page0 abort_def
        not_found_def)
  have slice: "py_slice ?qs (- 20) (- 10) = ?tail"
    by (rule py_slice_minus1)
  have nonempty: "?tail \<noteq> []" if "10 < length (questions_tbl st)"
    using that by (simp add: length_order_by_id)
  have minus1: "respond (get_questions st (Some (- 1))) =
      Inr (QuestionPage ?tail (length ?qs) (categories_dict st) cur, 200)"
    if "10 < length (questions_tbl st)"
      and "get_common_category (categories_dict st) ?tail = Inr cur"
    using nonempty [OF that(1)] that(2)
    by (simp add: get_questions_def QUESTIONS_PER_PAGE_def Let_def slice seq_def)
  from empty zero nonempty minus1 show ?thesis
    by (simp add: Let_def)
qed

text \<open>Of twenty-five questions, page -1 returns the sixth to the fifteenth.\<close>

theorem get_questions_nonpositive_page_witness:
  "10 < length (questions_tbl long_store) \<and>
   respond (get_questions long_store (Some (- 1))) =
     Inr (QuestionPage (drop 5 (take 15 (questions_tbl long_store))) 25
            [(1, ''history'')] ''history'', 200)"
proof -
  have qs: "order_by_id (questions_tbl long_store) = questions_tbl long_store"
    by code_simp
  have len: "length (questions_tbl long_store) = 25"
    by code_simp
  have cats: "categories_dict long_store = [(1, ''history'')]"
    by code_simp
  have cur: "get_common_category [(1, ''history'')]
      (drop (25 - 20) (take (25 - 10) (questions_tbl long_store))) = Inr ''history''"
    by code_simp
  from get_questions_nonpositive_page [of long_store "''history''"] show ?thesis
    unfolding Let_def qs len cats using cur by simp
qed

subsection \<open>An exception that no handler catches\<close>

text \<open>
  C4 says that no exception leaves a handler other than as 404 or 422, also for
  \<^verbatim>\<open>GET /questions\<close> when the page holds a question whose category is not a key of
  the category mapping. \<open>get_questions\<close> has no \<^verbatim>\<open>try\<close>: on such a page the
  \<^verbatim>\<open>KeyError\<close> of \<open>get_common_category\<close> leaves the handler and reaches neither error
  handler. \<open>query_questions\<close> calls the same helper inside its \<^verbatim>\<open>try\<close>, and there
  the same failure is answered with 422.
\<close>

theorem get_questions_key_error_unhandled:
  "get_questions stale_store (Some 1) = Inl KeyError \<and>
   respond (get_questions stale_store (Some 1)) = Inl KeyError \<and>
   respond (query_questions stale_store (Some ''who'')) = Inr (Failure ''Unprocessable'', 422)"
  by code_simp

subsection \<open>Questions of one category\<close>

text \<open>
  C7. For \<^verbatim>\<open>GET /categories/{id}/questions\<close>: when the id is not the id of a
  category, the \<^verbatim>\<open>KeyError\<close> of the lookup is caught and the answer is 404 Not
  Found. When it is the id of a category, the answer is a success that lists the
  questions of that category, however many there are (none included), and
  \<^verbatim>\<open>current_category\<close> is the lower-cased label of a category with that id, taken
  from the mapping by the id itself and not by counting.
\<close>

theorem get_questions_by_category_cases:
  "(category_id \<notin> c_id ` set (categories_tbl st) \<longrightarrow>
      respond (get_questions_by_category st category_id) = Inr (Failure ''Not Found'', 404)) \<and>
   (category_id \<in> c_id ` set (categories_tbl st) \<longrightarrow>
      (\<exists>cat \<in> set (categories_tbl st). c_id cat = category_id \<and>
         respond (get_questions_by_category st category_id) =
           Inr (QuestionList (filter (\<lambda>q. q_category q = category_id) (questions_tbl st))
                  (length (filter (\<lambda>q. q_category q = category_id) (questions_tbl st)))
                  (lower (c_type cat)), 200)))"
proof (intro conjI impI)
  assume "category_id \<notin> c_id ` set (categories_tbl st)"
  then have "find (\<lambda>cat. c_id cat = category_id) (rev (categories_tbl st)) = None"
    by (auto simp: find_None_iff)
  then show "respond (get_questions_by_category st category_id) =
      Inr (Failure ''Not Found'', 404)"
    by (simp add: get_questions_by_category_def dict_get_def categories_dict_lookup seq_def
        except_abort_def abort_def not_found_def)
next
  assume "category_id \<in> c_id ` set (categories_tbl st)"
  then obtain cat
    where found: "find (\<lambda>cat. c_id cat = category_id) (rev (categories_tbl st)) = Some cat"
    by (cases "find (\<lambda>cat. c_id cat = category_id) (rev (categories_tbl st))")
      (auto simp: find_None_iff)
  then have "cat \<in> set (categories_tbl st)" and "c_id cat = category_id"
    by (auto dest: find_SomeD)
  moreover from found have "respond (get_questions_by_category st category_id) =
      Inr (QuestionList (filter (\<lambda>q. q_category q = category_id) (questions_tbl st))
             (length (filter (\<lambda>q. q_category q = category_id) (questions_tbl st)))
             (lower (c_type cat)), 200)"
    by (simp add: get_questions_by_category_def dict_get_def categories_dict_lookup seq_def
        except_abort_def Let_def)
  ultimately show "\<exists>cat \<in> set (categories_tbl st). c_id cat = category_id \<and>
      respond (get_questions_by_category st category_id) =
        Inr (QuestionList (filter (\<lambda>q. q_category q = category_id) (questions_tbl st))
               (length (filter (\<lambda>q. q_category q = category_id) (questions_tbl st)))
               (lower (c_type cat)), 200)"
    by blast
qed

text \<open>
  Category 3 exists and has no question: a success with the label \<open>sports\<close>.
  Category 4 does not exist: 404.
\<close>

theorem get_questions_by_category_cases_witness:
  "respond (get_questions_by_category trivia_store 4) = Inr (Failure ''Not Found'', 404) \<and>
   respond (get_questions_by_category trivia_store 3) = Inr (QuestionList [] 0 ''sports'', 200)"
proof -
  have absent: "4 \<notin> c_id ` set (categories_tbl trivia_store)"
    by (simp add: trivia_store_def)
  have present: "3 \<in> c_id ` set (categories_tbl trivia_store)"
    by (simp add: trivia_store_def)
  have none: "filter (\<lambda>q. q_category q = 3) (questions_tbl trivia_store) = []"
    by (simp add: trivia_store_def)
  have label: "lower (c_type cat) = ''sports''"
    if "cat \<in> set (categories_tbl trivia_store)" and "c_id cat = 3" for cat
  proof -
    have "lower ''Sports'' = ''sports''"
      by code_simp
    moreover from that have "cat = \<lparr>c_id = 3, c_type = ''Sports''\<rparr>"
      by (auto simp: trivia_store_def)
    ultimately show ?thesis
      by simp
  qed
  from get_questions_by_category_cases [of 4 trivia_store] absent
  have first: "respond (get_questions_by_category trivia_store 4) =
      Inr (Failure ''Not Found'', 404)"
    by blast
  from get_questions_by_category_cases [of 3 trivia_store] present
  obtain cat where "cat \<in> set (categories_tbl trivia_store)" and "c_id cat = 3"
    and "respond (get_questions_by_category trivia_store 3) =
      Inr (QuestionList (filter (\<lambda>q. q_category q = 3) (questions_tbl trivia_store))
             (length (filter (\<lambda>q. q_category q = 3) (questions_tbl trivia_store)))
             (lower (c_type cat)), 200)"
    by blast
  with label none have "respond (get_questions_by_category trivia_store 3) =
      Inr (QuestionList [] 0 ''sports'', 200)"
    by simp
  with first show ?thesis
    by blast
qed

subsection \<open>The quiz\<close>

text \<open>
  C2. For every call of \<^verbatim>\<open>POST /quizzes\<close> whose body has a list
  \<^verbatim>\<open>previous_questions\<close> and a \<^verbatim>\<open>quiz_category.id\<close>, the candidates being all
  stored questions when the id is 0 and the stored questions of that category
  otherwise, and for whatever order the shuffle gives the candidates: if the id of every
  candidate is in \<^verbatim>\<open>previous_questions\<close>, the answer is
  \<^verbatim>\<open>{success: True, question: ''}\<close>; otherwise the answer holds the first candidate
  in the shuffled order whose id is not in \<^verbatim>\<open>previous_questions\<close>, so that its id
  is not in that list and its category is the requested one when the id is not 0.
\<close>

theorem quiz_first_unseen:
  assumes body: "previous_questions b = Some prev" "quiz_category b = Some (Some category_id)"
    and candidates: "candidates =
      (if category_id = 0 then questions_tbl st
       else filter (\<lambda>q. q_category q = category_id) (questions_tbl st))"
    and shuffled: "mset (shuffle candidates) = mset candidates"
  shows "((\<forall>q \<in> set candidates. q_id q \<in> set prev) \<longrightarrow>
            respond (quiz shuffle st b) = Inr (QuizQuestion None, 200)) \<and>
         ((\<exists>q \<in> set candidates. q_id q \<notin> set prev) \<longrightarrow>
            (\<exists>seen q rest.
               shuffle candidates = seen @ q # rest \<and>
               (\<forall>u \<in> set seen. q_id u \<in> set prev) \<and>
               respond (quiz shuffle st b) = Inr (QuizQuestion (Some q), 200) \<and>
               q \<in> set (questions_tbl st) \<and>
               q_id q \<notin> set prev \<and>
               (category_id \<noteq> 0 \<longrightarrow> q_category q = category_id)))"
proof -
  have loaded: "category_questions st category_id = candidates"
    by (simp add: candidates category_questions_def)
  have run: "quiz shuffle st b = Inr (quiz_scan (set prev) (shuffle candidates))"
    using body by (simp add: quiz_def json_get_def seq_def except_abort_def loaded)
  have same: "set (shuffle candidates) = set candidates"
    using shuffled by (rule mset_eq_setD)
  have none: "respond (quiz shuffle st b) = Inr (QuizQuestion None, 200)"
    if "\<forall>q \<in> set candidates. q_id q \<in> set prev"
    using that by (simp add: run same quiz_scan_all_seen)
  have some: "\<exists>seen q rest.
      shuffle candidates = seen @ q # rest \<and>
      (\<forall>u \<in> set seen. q_id u \<in> set prev) \<and>
      respond (quiz shuffle st b) = Inr (QuizQuestion (Some q), 200) \<and>
      q \<in> set (questions_tbl st) \<and>
      q_id q \<notin> set prev \<and>
      (category_id \<noteq> 0 \<longrightarrow> q_category q = category_id)"
    if "\<exists>q \<in> set candidates. q_id q \<notin> set prev"
  proof -
    from that same have "\<exists>q \<in> set (shuffle candidates). q_id q \<notin> set prev"
      by simp
    from quiz_scan_first_unseen [OF this] obtain seen q rest
      where split: "shuffle candidates = seen @ q # rest"
        and seen: "\<forall>u \<in> set seen. q_id u \<in> set prev"
        and unseen: "q_id q \<notin> set prev"
        and scan: "quiz_scan (set prev) (shuffle candidates) = QuizQuestion (Some q)"
      by blast
    from split same have "q \<in> set (category_questions st category_id)"
      unfolding loaded by (metis in_set_conv_decomp)
    from category_questions_member [OF this] split seen unseen scan show ?thesis
      by (auto simp: run)
  qed
  from none some show ?thesis
    by blast
qed

text \<open>
  Category 2 in the reversed order: the question with id 3 comes first; it has been
  seen, so the question with id 2 is returned; once both have been seen the question is
  empty. Id 0 with the questions 3 and 1 seen: all three questions are candidates, and
  the one with id 2 is returned.
\<close>

theorem quiz_first_unseen_witness:
  "respond (quiz rev trivia_store
              \<lparr>previous_questions = Some [3], quiz_category = Some (Some 2)\<rparr>) =
     Inr (QuizQuestion (Some \<lparr>q_id = 2, q_question = ''Who painted the Water Lilies?'',
            q_answer = ''Monet'', q_category = 2, q_difficulty = 2\<rparr>), 200) \<and>
   respond (quiz rev trivia_store
              \<lparr>previous_questions = Some [3, 2], quiz_category = Some (Some 2)\<rparr>) =
     Inr (QuizQuestion None, 200) \<and>
   respond (quiz rev trivia_store
              \<lparr>previous_questions = Some [3, 1], quiz_category = Some (Some 0)\<rparr>) =
     Inr (QuizQuestion (Some \<lparr>q_id = 2, q_question = ''Who painted the Water Lilies?'',
            q_answer = ''Monet'', q_category = 2, q_difficulty = 2\<rparr>), 200)"
proof -
  let ?monet = "\<lparr>q_id = 2, q_question = ''Who painted the Water Lilies?'', q_answer = ''Monet'',
          q_category = 2, q_difficulty = 2\<rparr>"
  let ?gogh = "\<lparr>q_id = 3, q_question = ''Which artist cut off his ear?'', q_answer = ''Van Gogh'',
          q_category = 2, q_difficulty = 1\<rparr>"
  let ?b1 = "\<lparr>previous_questions = Some [3], quiz_category = Some (Some 2)\<rparr>"
  let ?b2 = "\<lparr>previous_questions = Some [3, 2], quiz_category = Some (Some 2)\<rparr>"
  let ?b3 = "\<lparr>previous_questions = Some [3, 1], quiz_category = Some (Some 0)\<rparr>"
  have art: "[?monet, ?gogh] =
      (if (2::int) = 0 then questions_tbl trivia_store
       else filter (\<lambda>q. q_category q = 2) (questions_tbl trivia_store))"
    by (simp add: trivia_store_def)
  have all: "questions_tbl trivia_store =
      (if (0::int) = 0 then questions_tbl trivia_store
       else filter (\<lambda>q. q_category q = 0) (questions_tbl trivia_store))"
    by simp
  have perm: "mset (rev xs) = mset xs" for xs :: "question list"
    by simp
  from quiz_first_unseen [where shuffle = rev and b = ?b1 and prev = "[3]", OF _ _ art perm]
  obtain q where "respond (quiz rev trivia_store ?b1) = Inr (QuizQuestion (Some q), 200)"
    and "q \<in> set (questions_tbl trivia_store)" and "q_id q \<notin> set [3]" and "q_category q = 2"
    by auto
  then have first: "respond (quiz rev trivia_store ?b1) = Inr (QuizQuestion (Some ?monet), 200)"
    by (auto simp: trivia_store_def)
  from quiz_first_unseen [where shuffle = rev and b = ?b2 and prev = "[3, 2]", OF _ _ art perm]
  have second: "respond (quiz rev trivia_store ?b2) = Inr (QuizQuestion None, 200)"
    by simp
  from quiz_first_unseen [where shuffle = rev and b = ?b3 and prev = "[3, 1]", OF _ _ all perm]
  obtain q where "respond (quiz rev trivia_store ?b3) = Inr (QuizQuestion (Some q), 200)"
    and "q \<in> set (questions_tbl trivia_store)" and "q_id q \<notin> set [3, 1]"
    by (auto simp: trivia_store_def)
  then have third: "respond (quiz rev trivia_store ?b3) = Inr (QuizQuestion (Some ?monet), 200)"
    by (auto simp: trivia_store_def)
  from first second third show ?thesis
    by blast
qed

subsection \<open>Searching\<close>

text \<open>
  C8. For every search term that matches no question, \<^verbatim>\<open>POST /search\<close> answers
  200 with an empty list of questions, \<^verbatim>\<open>total_questions\<close> 0 and the empty string
  as \<^verbatim>\<open>current_category\<close>: an empty result is not an error.
\<close>

theorem query_questions_no_match:
  assumes "\<forall>q \<in> set (questions_tbl st).
             \<not> ilike (backslash_escapes st) (''%'' @ search_term @ ''%'') (q_question q)"
  shows "query_questions st (Some search_term) = Inr (QuestionList [] 0 '''') \<and>
         respond (query_questions st (Some search_term)) = Inr (QuestionList [] 0 '''', 200)"
proof -
  have "filter (\<lambda>q. ilike (backslash_escapes st) (''%'' @ search_term @ ''%'') (q_question q))
          (questions_tbl st) = []"
    using assms by (simp add: filter_empty_conv)
  then show ?thesis
    by (simp add: query_questions_def json_get_def seq_def Let_def get_common_category_def
        except_abort_def)
qed

theorem query_questions_no_match_witness:
  "respond (query_questions trivia_store (Some ''zebra'')) = Inr (QuestionList [] 0 '''', 200)"
proof -
  have "\<forall>q \<in> set (questions_tbl trivia_store).
      \<not> ilike (backslash_escapes trivia_store) (''%'' @ ''zebra'' @ ''%'') (q_question q)"
    by code_simp
  from query_questions_no_match [OF this] show ?thesis
    by blast
qed

text \<open>
  C5. \<^verbatim>\<open>POST /search\<close> is to return a question exactly when the search term is a
  substring of its text, case ignored; the comment above the handler says the same
  (the list is to hold only questions that include the string). The handler puts the
  term into the pattern as it is, so an underscore in the term is the wildcard for any
  one character: the search for \<^verbatim>\<open>_\<close> in \<open>trivia_store\<close> is answered with all three
  questions, and none of them has an underscore in its text. The pattern has no letter
  in it, so the answer does not depend on how letters are folded (\<open>ilike_underscore\<close>).
\<close>

theorem query_questions_underscore_wildcard:
  "respond (query_questions trivia_store (Some ''_'')) =
     Inr (QuestionList (questions_tbl trivia_store) 3 ''art'', 200) \<and>
   length (questions_tbl trivia_store) = 3 \<and>
   CHR ''_'' \<notin> set ''Who painted the Water Lilies?'' \<and>
   CHR ''_'' \<notin> set ''What is the Title of the first Harry Potter book?'' \<and>
   CHR ''_'' \<notin> set ''Which artist cut off his ear?''"
  by code_simp

end
